theory Spec2Isabelle
  imports Complex_Main
begin

section \<open>The cart and order store: data model\<close>

text \<open>
  The store is the React context provider \<^verbatim>\<open>CartProvider\<close>. Its state is the pair of
  \<^verbatim>\<open>useState\<close> cells \<^verbatim>\<open>items\<close> and \<^verbatim>\<open>orders\<close>; every operation is a state updater that runs
  to completion before the next one starts, so the model passes the state explicitly.

  A TypeScript \<^verbatim>\<open>number\<close> is a double-precision floating-point number. The model holds
  the finite numbers, each as the rational it denotes (no NaN, no infinities), so that
  the comparisons \<^verbatim>\<open><\<close>, \<^verbatim>\<open>>\<close> and \<^verbatim>\<open>===\<close> are the exact ones. The operations whose
  result is rounded to a representable number (\<^verbatim>\<open>+\<close>, \<^verbatim>\<open>*\<close> and the reading of a decimal
  numeral) are not computed by the model: they are the platform's, and a parameter of
  every function that uses them. An optional field (\<^verbatim>\<open>f?: T\<close>) is a \<open>T option\<close>, with
  \<open>None\<close> for \<^verbatim>\<open>undefined\<close>.
\<close>

type_synonym number = rat

record Supplier =
  sup_name :: string
  price :: number

record CartItem =
  item_id :: number
  item_name :: string
  quantity :: number
  availableSuppliers :: "Supplier list option"
  selectedSupplierName :: "string option"

record OrderItem =
  productId :: number
  productName :: string
  ordered_quantity :: number
  supplierName :: string
  supplierPrice :: number
  itemTotal :: number

record Order =
  order_id :: string
  date :: string
  order_items :: "OrderItem list"
  totalAmount :: number

text \<open>
  The three messages \<^verbatim>\<open>placeOrder\<close> passes to \<^verbatim>\<open>alert\<close>, in the order of the source: the
  cart is empty; a supplier must be chosen for every item; the order could not be
  placed, check the chosen suppliers.
\<close>

datatype alert = CartEmpty | SupplierNotSelected | NothingResolved

text \<open>
  The store: the two state cells, and the two effects of \<^verbatim>\<open>placeOrder\<close> that leave the
  component, the alerts shown so far and the number of calls of the \<^verbatim>\<open>onCheckoutSuccess\<close>
  prop.
\<close>

record Store =
  items :: "CartItem list"
  orders :: "Order list"
  alerts :: "alert list"
  checkoutSuccessCalls :: nat

text \<open>
  What \<^verbatim>\<open>placeOrder\<close> reads from the platform: \<^verbatim>\<open>Date.now()\<close> (an integer number of
  milliseconds), \<^verbatim>\<open>Math.random()\<close> and \<^verbatim>\<open>new Date().toLocaleString()\<close>.
\<close>

record Env =
  dateNow :: int
  mathRandom :: number
  localeString :: string

section \<open>The arithmetic of the platform\<close>

text \<open>
  The three rounded operations the store uses: the sum and the product of two numbers,
  and the number a decimal numeral denotes (\<^verbatim>\<open>parseFloat\<close>). They are applied to numbers
  only; what a function of this record does on a rational that is no number is of no
  consequence.
\<close>

record ArithOps =
  add_op :: "number \<Rightarrow> number \<Rightarrow> number"
  mul_op :: "number \<Rightarrow> number \<Rightarrow> number"
  parse_op :: "number \<Rightarrow> number"

text \<open>
  An arithmetic is any such triple whose sum of two numbers above zero is above zero, as
  the rounded sum of two positive floating-point numbers is (it is not below the larger
  of the two). Nothing else is assumed of it: in particular a sum or a product need not
  be the exact one.
\<close>

typedef Arith = "{ops :: ArithOps. \<forall>x y. 0 < x \<and> 0 < y \<longrightarrow> 0 < add_op ops x y}"
proof
  show "\<lparr>add_op = (+), mul_op = (*), parse_op = (\<lambda>x. x)\<rparr>
          \<in> {ops :: ArithOps. \<forall>x y. 0 < x \<and> 0 < y \<longrightarrow> 0 < add_op ops x y}"
    by simp
qed

text \<open>\<^verbatim>\<open>x + y\<close>, \<^verbatim>\<open>x * y\<close> and \<^verbatim>\<open>parseFloat\<close> of the numeral of value \<open>x\<close>.\<close>

definition fadd :: "Arith \<Rightarrow> number \<Rightarrow> number \<Rightarrow> number" where
  "fadd ar x y = add_op (Rep_Arith ar) x y"

definition fmul :: "Arith \<Rightarrow> number \<Rightarrow> number \<Rightarrow> number" where
  "fmul ar x y = mul_op (Rep_Arith ar) x y"

definition parseFloat :: "Arith \<Rightarrow> number \<Rightarrow> number" where
  "parseFloat ar x = parse_op (Rep_Arith ar) x"

section \<open>JavaScript primitives the store uses\<close>

text \<open>
  Truthiness of an optional string, as \<^verbatim>\<open>!item.selectedSupplierName\<close> and
  \<^verbatim>\<open>items.every(item => item.selectedSupplierName)\<close> test it: \<^verbatim>\<open>undefined\<close> and the empty
  string are falsy.
\<close>

definition truthy :: "string option \<Rightarrow> bool" where
  "truthy s = (case s of None \<Rightarrow> False | Some n \<Rightarrow> n \<noteq> [])"

text \<open>\<^verbatim>\<open>Array.prototype.findIndex\<close>; \<open>None\<close> is the source's \<^verbatim>\<open>-1\<close>.\<close>

fun findIndex :: "('a \<Rightarrow> bool) \<Rightarrow> 'a list \<Rightarrow> nat option" where
  "findIndex P [] = None"
| "findIndex P (x # xs) = (if P x then Some 0 else map_option Suc (findIndex P xs))"

text \<open>
  The value of the numeral \<^verbatim>\<open>x.toFixed(2)\<close> prints for a number below \<open>10^21\<close> in absolute
  value: \<^verbatim>\<open>toFixed\<close> takes the sign off, picks the integer \<open>n\<close> with \<open>n / 100\<close> nearest to
  the absolute value (the larger \<open>n\<close> on a tie; this step is exact) and prints it with
  two decimals.
\<close>

definition hundredths :: "number \<Rightarrow> number" where
  "hundredths x =
     (if x < 0 then - (of_int \<lfloor>(- x) * 100 + 1 / 2\<rfloor> / 100)
      else of_int \<lfloor>x * 100 + 1 / 2\<rfloor> / 100)"

text \<open>
  \<^verbatim>\<open>parseFloat(x.toFixed(2))\<close>. From \<open>10^21\<close> on \<^verbatim>\<open>toFixed\<close> prints the number as \<^verbatim>\<open>String\<close>
  does, and \<^verbatim>\<open>parseFloat\<close> reads that numeral back as the number itself.
\<close>

definition toFixed2 :: "Arith \<Rightarrow> number \<Rightarrow> number" where
  "toFixed2 ar x = (if 10 ^ 21 \<le> \<bar>x\<bar> then x else parseFloat ar (hundredths x))"

text \<open>The decimal numeral of an integer, as a template literal prints it.\<close>

definition digit_char :: "nat \<Rightarrow> char" where
  "digit_char d = ''0123456789'' ! d"

fun string_of_nat :: "nat \<Rightarrow> string" where
  "string_of_nat n =
     (if n < 10 then [digit_char n] else string_of_nat (n div 10) @ [digit_char (n mod 10)])"

declare string_of_nat.simps [simp del]

definition string_of_int :: "int \<Rightarrow> string" where
  "string_of_int i = (if i < 0 then CHR ''-'' # string_of_nat (nat (- i)) else string_of_nat (nat i))"

section \<open>Choosing the cheapest supplier\<close>

text \<open>
  The callback of both \<^verbatim>\<open>reduce\<close> calls:
  \<^verbatim>\<open>(currentSupplier.price < minSupplier.price) ? currentSupplier : minSupplier\<close>.
\<close>

definition cheaper :: "Supplier \<Rightarrow> Supplier \<Rightarrow> Supplier" where
  "cheaper minSupplier currentSupplier =
     (if price currentSupplier < price minSupplier then currentSupplier else minSupplier)"

text \<open>
  \<^verbatim>\<open>availableSuppliers.reduce(..., availableSuppliers[0])\<close>, which the source calls only
  under the guard \<^verbatim>\<open>availableSuppliers.length > 0\<close>; the first element is made a parameter
  so that the guard is part of the caller's pattern match.
\<close>

definition cheapestSupplier :: "Supplier \<Rightarrow> Supplier list \<Rightarrow> Supplier" where
  "cheapestSupplier first suppliers = foldl cheaper first suppliers"

section \<open>Initialisation from storage\<close>

text \<open>The body of \<^verbatim>\<open>loadedItems.map(item => ...)\<close> in the initialiser of \<^verbatim>\<open>items\<close>.\<close>

definition loadItem :: "CartItem \<Rightarrow> CartItem" where
  "loadItem item =
     (case availableSuppliers item of
        Some (s0 # rest) \<Rightarrow>
          (let cheapest = cheapestSupplier s0 (s0 # rest) in
           if \<not> truthy (selectedSupplierName item)
              \<or> selectedSupplierName item \<noteq> Some (sup_name cheapest)
           then item\<lparr>selectedSupplierName := Some (sup_name cheapest)\<rparr>
           else item)
      | _ \<Rightarrow> item)"

text \<open>
  The stored form. \<^verbatim>\<open>JSON.stringify\<close> and \<^verbatim>\<open>JSON.parse\<close> are modelled on the JSON value
  (the text between them is the platform's): an object is the list of its own
  properties, and a property whose value is \<^verbatim>\<open>undefined\<close> is left out.
\<close>

datatype json =
  JNull
  | JBool bool
  | JNum number
  | JStr string
  | JArr "json list"
  | JObj "(string \<times> json) list"






text \<open>
  Reading the parsed value back at the declared types. The source casts the result of
  \<^verbatim>\<open>JSON.parse\<close> without a check, so a value of another shape has no typed meaning:
  that is \<open>None\<close> here.
\<close>

definition num_field :: "string \<Rightarrow> (string \<times> json) list \<Rightarrow> number option" where
  "num_field k kvs = (case map_of kvs k of Some (JNum n) \<Rightarrow> Some n | _ \<Rightarrow> None)"

definition str_field :: "string \<Rightarrow> (string \<times> json) list \<Rightarrow> string option" where
  "str_field k kvs = (case map_of kvs k of Some (JStr s) \<Rightarrow> Some s | _ \<Rightarrow> None)"

text \<open>
  An optional string property: left out (the outer \<open>Some\<close>, of \<open>None\<close>), a string, or a
  value of another type, which the declared type does not have (the outer \<open>None\<close>).
\<close>

definition optional_str_field :: "string \<Rightarrow> (string \<times> json) list \<Rightarrow> string option option" where
  "optional_str_field k kvs =
     (case map_of kvs k of
        None \<Rightarrow> Some None
      | Some (JStr s) \<Rightarrow> Some (Some s)
      | Some _ \<Rightarrow> None)"

fun all_some :: "'a option list \<Rightarrow> 'a list option" where
  "all_some [] = Some []"
| "all_some (None # _) = None"
| "all_some (Some x # xs) = map_option ((#) x) (all_some xs)"

definition arr_field :: "string \<Rightarrow> (json \<Rightarrow> 'a option) \<Rightarrow> (string \<times> json) list \<Rightarrow> 'a list option" where
  "arr_field k dec kvs =
     (case map_of kvs k of Some (JArr xs) \<Rightarrow> all_some (map dec xs) | _ \<Rightarrow> None)"

definition supplier_of_json :: "json \<Rightarrow> Supplier option" where
  "supplier_of_json j =
     (case j of
        JObj kvs \<Rightarrow>
          (case (str_field ''name'' kvs, num_field ''price'' kvs) of
             (Some n, Some p) \<Rightarrow> Some \<lparr>sup_name = n, price = p\<rparr>
           | _ \<Rightarrow> None)
      | _ \<Rightarrow> None)"

definition cartItem_of_json :: "json \<Rightarrow> CartItem option" where
  "cartItem_of_json j =
     (case j of
        JObj kvs \<Rightarrow>
          (case (num_field ''id'' kvs, str_field ''name'' kvs, num_field ''quantity'' kvs) of
             (Some i, Some n, Some q) \<Rightarrow>
               (case optional_str_field ''selectedSupplierName'' kvs of
                  None \<Rightarrow> None
                | Some selected \<Rightarrow>
                    (case map_of kvs ''availableSuppliers'' of
                       None \<Rightarrow>
                         Some \<lparr>item_id = i, item_name = n, quantity = q,
                               availableSuppliers = None, selectedSupplierName = selected\<rparr>
                     | Some _ \<Rightarrow>
                         map_option
                           (\<lambda>ss. \<lparr>item_id = i, item_name = n, quantity = q,
                                  availableSuppliers = Some ss, selectedSupplierName = selected\<rparr>)
                           (arr_field ''availableSuppliers'' supplier_of_json kvs)))
           | _ \<Rightarrow> None)
      | _ \<Rightarrow> None)"



text \<open>
  \<^verbatim>\<open>localStorage\<close>, with its two keys \<^verbatim>\<open>cartItems\<close> and \<^verbatim>\<open>orders\<close>; \<open>None\<close> is a key that
  was never written (\<^verbatim>\<open>getItem\<close> returns \<^verbatim>\<open>null\<close>).
\<close>

record Storage =
  stored_cartItems :: "json option"
  stored_orders :: "json option"


text \<open>
  The initialiser of \<^verbatim>\<open>items\<close>: \<^verbatim>\<open>savedCart ? JSON.parse(savedCart) : []\<close>, then the
  re-selection of the cheapest supplier on every loaded item.
\<close>

definition initialItems :: "Storage \<Rightarrow> CartItem list option" where
  "initialItems st =
     (case stored_cartItems st of
        None \<Rightarrow> Some []
      | Some (JArr js) \<Rightarrow> map_option (map loadItem) (all_some (map cartItem_of_json js))
      | Some _ \<Rightarrow> None)"



section \<open>The cart operations\<close>

text \<open>The predicate of \<^verbatim>\<open>prevItems.findIndex\<close> in \<^verbatim>\<open>addToCart\<close>.\<close>

definition sameEntry :: "CartItem \<Rightarrow> CartItem \<Rightarrow> bool" where
  "sameEntry product item \<longleftrightarrow>
     item_id item = item_id product \<and> selectedSupplierName item = selectedSupplierName product"

text \<open>\<^verbatim>\<open>itemToAdd\<close>: the copy of the product, with the cheapest supplier chosen if none is.\<close>

definition itemToAdd :: "CartItem \<Rightarrow> CartItem" where
  "itemToAdd product =
     (case availableSuppliers product of
        Some (s0 # rest) \<Rightarrow>
          (if \<not> truthy (selectedSupplierName product)
           then product\<lparr>selectedSupplierName := Some (sup_name (cheapestSupplier s0 (s0 # rest)))\<rparr>
           else product)
      | _ \<Rightarrow> product)"

text \<open>
  The updater \<^verbatim>\<open>addToCart\<close> passes to \<^verbatim>\<open>setItems\<close>; the merged quantity is the
  platform's sum \<^verbatim>\<open>quantity + product.quantity\<close>.
\<close>

definition addToCart_items :: "Arith \<Rightarrow> CartItem \<Rightarrow> CartItem list \<Rightarrow> CartItem list" where
  "addToCart_items ar product prevItems =
     (case findIndex (sameEntry product) prevItems of
        Some existingItemIndex \<Rightarrow>
          prevItems[existingItemIndex :=
            (prevItems ! existingItemIndex)
              \<lparr>quantity := fadd ar (quantity (prevItems ! existingItemIndex)) (quantity product)\<rparr>]
      | None \<Rightarrow> prevItems @ [itemToAdd product])"

definition addToCart :: "Arith \<Rightarrow> CartItem \<Rightarrow> Store \<Rightarrow> Store" where
  "addToCart ar product s = s\<lparr>items := addToCart_items ar product (items s)\<rparr>"

definition removeFromCart :: "number \<Rightarrow> Store \<Rightarrow> Store" where
  "removeFromCart pid s = s\<lparr>items := filter (\<lambda>item. item_id item \<noteq> pid) (items s)\<rparr>"

definition updateQuantity_items :: "number \<Rightarrow> number \<Rightarrow> CartItem list \<Rightarrow> CartItem list" where
  "updateQuantity_items pid q prevItems =
     filter (\<lambda>item. quantity item > 0)
       (map (\<lambda>item. if item_id item = pid then item\<lparr>quantity := q\<rparr> else item) prevItems)"

definition updateQuantity :: "number \<Rightarrow> number \<Rightarrow> Store \<Rightarrow> Store" where
  "updateQuantity pid q s = s\<lparr>items := updateQuantity_items pid q (items s)\<rparr>"

definition clearCart :: "Store \<Rightarrow> Store" where
  "clearCart s = s\<lparr>items := []\<rparr>"

definition selectSupplierForItem :: "number \<Rightarrow> string option \<Rightarrow> Store \<Rightarrow> Store" where
  "selectSupplierForItem itemId supplier s =
     s\<lparr>items := map (\<lambda>item. if item_id item = itemId
                              then item\<lparr>selectedSupplierName := supplier\<rparr> else item)
                     (items s)\<rparr>"

section \<open>Checkout\<close>

text \<open>
  \<^verbatim>\<open>item.availableSuppliers?.find((s) => s.name === item.selectedSupplierName)\<close>:
  \<^verbatim>\<open>undefined\<close> when the item has no offer list or no offer of that name.
\<close>

definition selectedSupplier :: "CartItem \<Rightarrow> Supplier option" where
  "selectedSupplier item =
     (case availableSuppliers item of
        None \<Rightarrow> None
      | Some ss \<Rightarrow> find (\<lambda>s. Some (sup_name s) = selectedSupplierName item) ss)"

text \<open>
  The body of \<^verbatim>\<open>items.forEach\<close>; the pair is the two variables it updates,
  \<^verbatim>\<open>newOrderItems\<close> and \<^verbatim>\<open>orderTotal\<close>. The product and the running sum are the platform's.
\<close>

definition orderStep :: "Arith \<Rightarrow> OrderItem list \<times> number \<Rightarrow> CartItem \<Rightarrow> OrderItem list \<times> number" where
  "orderStep ar acc item =
     (case selectedSupplier item of
        Some chosen \<Rightarrow>
          (let total = fmul ar (price chosen) (quantity item) in
           (fst acc @ [\<lparr>productId = item_id item, productName = item_name item,
                        ordered_quantity = quantity item, supplierName = sup_name chosen,
                        supplierPrice = price chosen, itemTotal = total\<rparr>],
            fadd ar (snd acc) total))
      | None \<Rightarrow> acc)"

text \<open>
  The identifier \<^verbatim>\<open>`ORDER-${Date.now()}-${Math.floor(Math.random() * 1000)}`\<close>;
  \<^verbatim>\<open>Math.floor\<close> is exact on the rounded product.
\<close>

definition newOrderId :: "Arith \<Rightarrow> Env \<Rightarrow> string" where
  "newOrderId ar env =
     ''ORDER-'' @ string_of_int (dateNow env) @ ''-''
       @ string_of_int \<lfloor>fmul ar (mathRandom env) 1000\<rfloor>"

definition placeOrder :: "Arith \<Rightarrow> Env \<Rightarrow> Store \<Rightarrow> Store" where
  "placeOrder ar env s =
     (if items s = [] then s\<lparr>alerts := alerts s @ [CartEmpty]\<rparr>
      else if \<not> list_all (\<lambda>item. truthy (selectedSupplierName item)) (items s)
      then s\<lparr>alerts := alerts s @ [SupplierNotSelected]\<rparr>
      else
        (let (newOrderItems, orderTotal) = foldl (orderStep ar) ([], 0) (items s) in
         if newOrderItems = [] then s\<lparr>alerts := alerts s @ [NothingResolved]\<rparr>
         else
           (let newOrder = \<lparr>order_id = newOrderId ar env, date = localeString env,
                             order_items = newOrderItems, totalAmount = toFixed2 ar orderTotal\<rparr>
            in s\<lparr>orders := orders s @ [newOrder], items := [],
                 checkoutSuccessCalls := checkoutSuccessCalls s + 1\<rparr>)))"

section \<open>Notions of the specification\<close>

text \<open>
  The definitions of this section follow the words of the specification, not the source;
  the theorems compare the source's functions with them.
\<close>

text \<open>An entry whose selected supplier name resolves to an offer of its own list.\<close>

definition resolves :: "CartItem \<Rightarrow> bool" where
  "resolves item \<longleftrightarrow> selectedSupplier item \<noteq> None"

text \<open>
  The line total of an entry that resolves: the resolved supplier price times the
  quantity, as the platform multiplies them.
\<close>

definition lineTotal :: "Arith \<Rightarrow> CartItem \<Rightarrow> number" where
  "lineTotal ar item =
     (case selectedSupplier item of
        Some s \<Rightarrow> fmul ar (price s) (quantity item)
      | None \<Rightarrow> 0)"

text \<open>
  The sum of numbers taken one after the other from zero, in the order of the list, as
  the platform adds them.
\<close>

definition runningSum :: "Arith \<Rightarrow> number list \<Rightarrow> number" where
  "runningSum ar xs = foldl (fadd ar) 0 xs"

text \<open>The order lines an entry gives: its snapshot if it resolves, none otherwise.\<close>

definition orderLines :: "Arith \<Rightarrow> CartItem \<Rightarrow> OrderItem list" where
  "orderLines ar item =
     (case selectedSupplier item of
        Some s \<Rightarrow>
          [\<lparr>productId = item_id item, productName = item_name item,
            ordered_quantity = quantity item, supplierName = sup_name s,
            supplierPrice = price s, itemTotal = fmul ar (price s) (quantity item)\<rparr>]
      | None \<Rightarrow> [])"


text \<open>Every entry has a selected supplier, as the checkout tests it.\<close>

definition allSelected :: "CartItem list \<Rightarrow> bool" where
  "allSelected xs \<longleftrightarrow> list_all (\<lambda>item. truthy (selectedSupplierName item)) xs"



text \<open>Every entry has a quantity above zero.\<close>

definition allPositive :: "CartItem list \<Rightarrow> bool" where
  "allPositive xs \<longleftrightarrow> list_all (\<lambda>item. 0 < quantity item) xs"

text \<open>
  Offer \<open>k\<close> of a list is its minimum-price offer, the first one among those of equal
  price.
\<close>

definition firstMinimum :: "Supplier list \<Rightarrow> nat \<Rightarrow> bool" where
  "firstMinimum offers k \<longleftrightarrow>
     k < length offers
     \<and> (\<forall>j < length offers. price (offers ! k) \<le> price (offers ! j))
     \<and> (\<forall>j < k. price (offers ! k) < price (offers ! j))"


section \<open>Example inputs\<close>

text \<open>The example of the specification: a widget offered by A at 10 and by B at 8.\<close>

definition offerA :: Supplier where
  "offerA = \<lparr>sup_name = ''A'', price = 10\<rparr>"

definition offerB :: Supplier where
  "offerB = \<lparr>sup_name = ''B'', price = 8\<rparr>"

definition widget :: CartItem where
  "widget = \<lparr>item_id = 1, item_name = ''Widget'', quantity = 2,
             availableSuppliers = Some [offerA, offerB], selectedSupplierName = Some ''B''\<rparr>"

text \<open>The same product as a catalogue page passes it to \<^verbatim>\<open>addToCart\<close>, no supplier chosen.\<close>

definition unselectedWidget :: CartItem where
  "unselectedWidget = widget\<lparr>selectedSupplierName := None\<rparr>"

text \<open>An entry whose selected name is no offer of its list.\<close>

definition gadget :: CartItem where
  "gadget = \<lparr>item_id = 2, item_name = ''Gadget'', quantity = 3,
             availableSuppliers = Some [offerA], selectedSupplierName = Some ''C''\<rparr>"

text \<open>A product passed to \<^verbatim>\<open>addToCart\<close> with quantity zero.\<close>

definition zeroGadget :: CartItem where
  "zeroGadget = gadget\<lparr>quantity := 0\<rparr>"


definition emptyStore :: Store where
  "emptyStore = \<lparr>items = [], orders = [], alerts = [], checkoutSuccessCalls = 0\<rparr>"

definition widgetStore :: Store where
  "widgetStore = emptyStore\<lparr>items := [widget]\<rparr>"

definition gadgetStore :: Store where
  "gadgetStore = emptyStore\<lparr>items := [gadget]\<rparr>"


definition mixedStore :: Store where
  "mixedStore = emptyStore\<lparr>items := [gadget, widget]\<rparr>"


text \<open>
  The arithmetic of the examples: sums and products are the exact ones, and a numeral
  denotes its own value. The floating-point arithmetic agrees with it wherever the exact
  result is a number, as every sum, product and numeral in the examples below is (small
  integers, and quotients by a power of two).
\<close>

definition exactArith :: Arith where
  "exactArith = Abs_Arith \<lparr>add_op = (+), mul_op = (*), parse_op = (\<lambda>x. x)\<rparr>"

definition env0 :: Env where
  "env0 = \<lparr>dateNow = 1700000000000, mathRandom = 87 / 2048, localeString = ''11/14/2023, 10:13:20 PM''\<rparr>"

text \<open>The widget is ordered, added again and ordered again, the platform reads the same.\<close>

definition widgetOrderedTwice :: Store where
  "widgetOrderedTwice =
     placeOrder exactArith env0
       (addToCart exactArith widget (placeOrder exactArith env0 widgetStore))"

section \<open>Auxiliary facts\<close>

lemma fadd_positive: "0 < x \<Longrightarrow> 0 < y \<Longrightarrow> 0 < fadd ar x y"
  using Rep_Arith[of ar] by (simp add: fadd_def)

lemma Rep_exactArith:
  "Rep_Arith exactArith = \<lparr>add_op = (+), mul_op = (*), parse_op = (\<lambda>x. x)\<rparr>"
  by (simp add: exactArith_def Abs_Arith_inverse)

lemma fadd_exactArith: "fadd exactArith x y = x + y"
  by (simp add: fadd_def Rep_exactArith)

lemma fmul_exactArith: "fmul exactArith x y = x * y"
  by (simp add: fmul_def Rep_exactArith)

lemma parseFloat_exactArith: "parseFloat exactArith x = x"
  by (simp add: parseFloat_def Rep_exactArith)

lemmas exactArith_simps = fadd_exactArith fmul_exactArith parseFloat_exactArith

lemma floor_rat_numeral [simp]: "\<lfloor>(numeral a :: rat) / numeral b\<rfloor> = numeral a div numeral b"
  by (metis floor_divide_of_int_eq of_int_numeral)

lemma orderLines_empty: "orderLines ar item = [] \<longleftrightarrow> \<not> resolves item"
  by (simp add: orderLines_def resolves_def split: option.splits)

lemma concat_orderLines_empty:
  "concat (map (orderLines ar) xs) = [] \<longleftrightarrow> (\<forall>item \<in> set xs. \<not> resolves item)"
  by (induction xs) (auto simp: orderLines_empty)

lemma orderStep_resolved:
  "resolves x \<Longrightarrow>
   orderStep ar acc x = (fst acc @ orderLines ar x, fadd ar (snd acc) (lineTotal ar x))"
  by (cases "selectedSupplier x")
     (simp_all add: orderStep_def orderLines_def lineTotal_def resolves_def Let_def)

lemma orderStep_unresolved: "\<not> resolves x \<Longrightarrow> orderStep ar acc x = acc"
  by (simp add: orderStep_def resolves_def)

lemma foldl_orderStep:
  "foldl (orderStep ar) acc xs =
     (fst acc @ concat (map (orderLines ar) xs),
      foldl (fadd ar) (snd acc) (map (lineTotal ar) (filter resolves xs)))"
proof (induction xs arbitrary: acc)
  case Nil
  show ?case by simp
next
  case (Cons x xs)
  show ?case
  proof (cases "resolves x")
    case True
    then show ?thesis by (simp add: Cons.IH orderStep_resolved)
  next
    case False
    then show ?thesis by (simp add: Cons.IH orderStep_unresolved orderLines_empty)
  qed
qed



lemma placeOrder_succeeds:
  assumes "items s \<noteq> []" and "allSelected (items s)" and "\<exists>item \<in> set (items s). resolves item"
  shows "placeOrder ar env s =
           s\<lparr>orders := orders s @
                  [\<lparr>order_id = newOrderId ar env, date = localeString env,
                    order_items = concat (map (orderLines ar) (items s)),
                    totalAmount =
                      toFixed2 ar (runningSum ar (map (lineTotal ar) (filter resolves (items s))))\<rparr>],
             items := [],
             checkoutSuccessCalls := checkoutSuccessCalls s + 1\<rparr>"
proof -
  have "concat (map (orderLines ar) (items s)) \<noteq> []"
    using assms(3) concat_orderLines_empty[of ar "items s"] by blast
  then show ?thesis
    using assms(1,2) by (simp add: placeOrder_def allSelected_def foldl_orderStep runningSum_def)
qed

lemma placeOrder_aborts:
  assumes "items s = [] \<or> \<not> allSelected (items s) \<or> (\<forall>item \<in> set (items s). \<not> resolves item)"
  shows "\<exists>a. placeOrder ar env s = s\<lparr>alerts := alerts s @ [a]\<rparr>"
proof -
  consider "items s = []" | "items s \<noteq> []" "\<not> allSelected (items s)"
    | "items s \<noteq> []" "allSelected (items s)" "\<forall>item \<in> set (items s). \<not> resolves item"
    using assms by blast
  then show ?thesis
  proof cases
    case 1
    then have "placeOrder ar env s = s\<lparr>alerts := alerts s @ [CartEmpty]\<rparr>"
      by (simp add: placeOrder_def)
    then show ?thesis by blast
  next
    case 2
    then have "placeOrder ar env s = s\<lparr>alerts := alerts s @ [SupplierNotSelected]\<rparr>"
      by (simp add: placeOrder_def allSelected_def)
    then show ?thesis by blast
  next
    case 3
    then have "concat (map (orderLines ar) (items s)) = []"
      using concat_orderLines_empty[of ar "items s"] by blast
    with 3 have "placeOrder ar env s = s\<lparr>alerts := alerts s @ [NothingResolved]\<rparr>"
      by (simp add: placeOrder_def allSelected_def foldl_orderStep)
    then show ?thesis by blast
  qed
qed




lemma widget_resolves: "resolves widget"
  by (simp add: resolves_def selectedSupplier_def widget_def offerA_def offerB_def)



section \<open>Checkout of a cart whose entries all resolve\<close>




text \<open>The example of the specification, evaluated: one order of one line, total 16.\<close>

lemma placeOrder_widget_example:
  "placeOrder exactArith env0 widgetStore =
     \<lparr>items = [],
      orders = [\<lparr>order_id = ''ORDER-1700000000000-42'', date = ''11/14/2023, 10:13:20 PM'',
                 order_items = [\<lparr>productId = 1, productName = ''Widget'', ordered_quantity = 2,
                                 supplierName = ''B'', supplierPrice = 8, itemTotal = 16\<rparr>],
                 totalAmount = 16\<rparr>],
      alerts = [], checkoutSuccessCalls = 1\<rparr>"
  by (simp add: placeOrder_def widgetStore_def emptyStore_def widget_def offerA_def offerB_def
      env0_def truthy_def orderStep_def selectedSupplier_def toFixed2_def hundredths_def
      newOrderId_def string_of_int_def string_of_nat.simps digit_char_def exactArith_simps)

lemma allSelected_iff: "allSelected xs \<longleftrightarrow> (\<forall>item \<in> set xs. truthy (selectedSupplierName item))"
  by (simp add: allSelected_def list_all_iff)

lemma allSelected_filter: "allSelected xs \<Longrightarrow> allSelected (filter P xs)"
  by (simp add: allSelected_iff)

lemma orderLines_filter_resolves:
  "concat (map (orderLines ar) (filter resolves xs)) = concat (map (orderLines ar) xs)"
  by (induction xs) (simp_all add: orderLines_empty)

lemma gadget_unresolved: "\<not> resolves gadget"
  by (simp add: resolves_def selectedSupplier_def gadget_def offerA_def)

section \<open>Checkout that fails validation\<close>

text \<open>
  Claim C2. On a cart that is empty, or has an entry with no selected supplier, or has no
  entry whose selected supplier resolves to an offer, \<^verbatim>\<open>placeOrder\<close> leaves the cart
  list and the order history as they were and does not call the success callback; it
  shows one alert.
\<close>

theorem placeOrder_validation_failure:
  assumes "items s = []
           \<or> (\<exists>item \<in> set (items s). \<not> truthy (selectedSupplierName item))
           \<or> (\<forall>item \<in> set (items s). \<not> resolves item)"
  shows "items (placeOrder ar env s) = items s
         \<and> orders (placeOrder ar env s) = orders s
         \<and> checkoutSuccessCalls (placeOrder ar env s) = checkoutSuccessCalls s
         \<and> (\<exists>a. alerts (placeOrder ar env s) = alerts s @ [a])"
proof -
  from assms have "items s = [] \<or> \<not> allSelected (items s)
                   \<or> (\<forall>item \<in> set (items s). \<not> resolves item)"
    by (simp add: allSelected_iff)
  from placeOrder_aborts[OF this, of ar env] obtain a where
    "placeOrder ar env s = s\<lparr>alerts := alerts s @ [a]\<rparr>" ..
  then show ?thesis by simp
qed

theorem placeOrder_validation_failure_witness:
  "items gadgetStore = [gadget] \<and> \<not> resolves gadget
   \<and> items (placeOrder exactArith env0 gadgetStore) = items gadgetStore
   \<and> orders (placeOrder exactArith env0 gadgetStore) = orders gadgetStore
   \<and> checkoutSuccessCalls (placeOrder exactArith env0 gadgetStore)
       = checkoutSuccessCalls gadgetStore
   \<and> (\<exists>a. alerts (placeOrder exactArith env0 gadgetStore) = alerts gadgetStore @ [a])"
proof -
  have its: "items gadgetStore = [gadget]"
    by (simp add: gadgetStore_def emptyStore_def)
  note unres = gadget_unresolved
  have "items gadgetStore = []
        \<or> (\<exists>item \<in> set (items gadgetStore). \<not> truthy (selectedSupplierName item))
        \<or> (\<forall>item \<in> set (items gadgetStore). \<not> resolves item)"
    using its unres by simp
  from placeOrder_validation_failure[OF this, of exactArith env0] its unres show ?thesis by simp
qed

section \<open>Entries that do not resolve are skipped\<close>

text \<open>
  Claim C7. When the cart is not empty and every entry has a selected supplier, the
  entries whose selected name is no offer of their own list are skipped without a
  message: the order history and the callback count come out as they would from the
  cart without these entries, so their presence alone neither aborts the checkout nor
  lets it pass; and when some entry resolves, the order created holds the lines of the
  resolving entries only, its \<^verbatim>\<open>totalAmount\<close> is \<^verbatim>\<open>parseFloat(total.toFixed(2))\<close> of the
  platform's running sum over the line totals of these entries only, and no alert is
  shown.
\<close>

theorem placeOrder_skips_unresolved:
  assumes "items s \<noteq> []" and "allSelected (items s)"
  shows "orders (placeOrder ar env s)
           = orders (placeOrder ar env (s\<lparr>items := filter resolves (items s)\<rparr>))
         \<and> checkoutSuccessCalls (placeOrder ar env s)
           = checkoutSuccessCalls (placeOrder ar env (s\<lparr>items := filter resolves (items s)\<rparr>))
         \<and> ((\<exists>item \<in> set (items s). resolves item) \<longrightarrow>
              (\<exists>newOrder.
                 orders (placeOrder ar env s) = orders s @ [newOrder]
                 \<and> order_items newOrder
                     = concat (map (orderLines ar) (filter resolves (items s)))
                 \<and> totalAmount newOrder
                     = toFixed2 ar (runningSum ar (map (lineTotal ar) (filter resolves (items s))))
                 \<and> alerts (placeOrder ar env s) = alerts s))"
proof (cases "\<exists>item \<in> set (items s). resolves item")
  case True
  let ?t = "s\<lparr>items := filter resolves (items s)\<rparr>"
  from True have ne: "items ?t \<noteq> []" by (auto simp: filter_empty_conv)
  have sel: "allSelected (items ?t)" using assms(2) by (simp add: allSelected_filter)
  from True have some: "\<exists>item \<in> set (items ?t). resolves item" by auto
  note a = placeOrder_succeeds[OF assms(1,2) True, of ar env]
  note b = placeOrder_succeeds[OF ne sel some, of ar env]
  show ?thesis
    unfolding a b by (simp add: orderLines_filter_resolves)
next
  case False
  let ?t = "s\<lparr>items := filter resolves (items s)\<rparr>"
  from False have "items s = [] \<or> \<not> allSelected (items s)
                   \<or> (\<forall>item \<in> set (items s). \<not> resolves item)" by blast
  from placeOrder_aborts[OF this, of ar env] obtain a where
    a: "placeOrder ar env s = s\<lparr>alerts := alerts s @ [a]\<rparr>" ..
  from False have "items ?t = []" by (auto simp: filter_empty_conv)
  then have "items ?t = [] \<or> \<not> allSelected (items ?t)
             \<or> (\<forall>item \<in> set (items ?t). \<not> resolves item)" by blast
  from placeOrder_aborts[OF this, of ar env] obtain b where
    b: "placeOrder ar env ?t = ?t\<lparr>alerts := alerts ?t @ [b]\<rparr>" ..
  from False show ?thesis unfolding a b by simp
qed

text \<open>A cart of a gadget that does not resolve and the widget: the order has the widget only.\<close>

theorem placeOrder_skips_unresolved_witness:
  "items mixedStore \<noteq> [] \<and> allSelected (items mixedStore)
   \<and> filter resolves (items mixedStore) = [widget]
   \<and> orders (placeOrder exactArith env0 mixedStore)
       = orders (placeOrder exactArith env0 widgetStore)
   \<and> (\<exists>newOrder.
         orders (placeOrder exactArith env0 mixedStore) = orders mixedStore @ [newOrder]
         \<and> order_items newOrder = concat (map (orderLines exactArith) [widget])
         \<and> totalAmount newOrder
             = toFixed2 exactArith (runningSum exactArith (map (lineTotal exactArith) [widget]))
         \<and> alerts (placeOrder exactArith env0 mixedStore) = alerts mixedStore)"
proof -
  have its: "items mixedStore = [gadget, widget]"
    by (simp add: mixedStore_def emptyStore_def)
  have ne: "items mixedStore \<noteq> []" by (simp add: its)
  have sel: "allSelected (items mixedStore)"
    by (simp add: its allSelected_def gadget_def widget_def truthy_def)
  have flt: "filter resolves (items mixedStore) = [widget]"
    by (simp add: its gadget_unresolved widget_resolves)
  have st: "mixedStore\<lparr>items := [widget]\<rparr> = widgetStore"
    by (simp add: mixedStore_def widgetStore_def)
  have some: "\<exists>item \<in> set (items mixedStore). resolves item"
    using its widget_resolves by simp
  note inst = placeOrder_skips_unresolved[OF ne sel, of exactArith env0, unfolded flt st]
  from inst some ne sel flt show ?thesis by blast
qed

section \<open>The order history is append-only\<close>

text \<open>
  Claim C10. No cart operation changes the order history, and \<^verbatim>\<open>placeOrder\<close> either
  leaves it as it was (and does not call the success callback) or, calling the callback
  once, appends one new order at its end, the orders stored before unchanged.
\<close>

theorem orders_append_only:
  "orders (addToCart ar product s) = orders s
   \<and> orders (removeFromCart pid s) = orders s
   \<and> orders (updateQuantity pid q s) = orders s
   \<and> orders (clearCart s) = orders s
   \<and> orders (selectSupplierForItem itemId supplier s) = orders s
   \<and> (orders (placeOrder ar env s) = orders s
        \<and> checkoutSuccessCalls (placeOrder ar env s) = checkoutSuccessCalls s
      \<or> (\<exists>newOrder. orders (placeOrder ar env s) = orders s @ [newOrder])
        \<and> checkoutSuccessCalls (placeOrder ar env s) = checkoutSuccessCalls s + 1)"
proof -
  have "orders (placeOrder ar env s) = orders s
          \<and> checkoutSuccessCalls (placeOrder ar env s) = checkoutSuccessCalls s
        \<or> (\<exists>newOrder. orders (placeOrder ar env s) = orders s @ [newOrder])
          \<and> checkoutSuccessCalls (placeOrder ar env s) = checkoutSuccessCalls s + 1"
  proof (cases "items s \<noteq> [] \<and> allSelected (items s) \<and> (\<exists>item \<in> set (items s). resolves item)")
    case True
    then have "items s \<noteq> []" "allSelected (items s)" "\<exists>item \<in> set (items s). resolves item"
      by blast+
    from placeOrder_succeeds[OF this, of ar env] show ?thesis by simp
  next
    case False
    then have "items s = [] \<or> \<not> allSelected (items s)
               \<or> (\<forall>item \<in> set (items s). \<not> resolves item)" by blast
    from placeOrder_aborts[OF this, of ar env] obtain a where
      "placeOrder ar env s = s\<lparr>alerts := alerts s @ [a]\<rparr>" ..
    then show ?thesis by simp
  qed
  then show ?thesis
    by (simp add: addToCart_def removeFromCart_def updateQuantity_def clearCart_def
        selectSupplierForItem_def)
qed

lemma findIndex_Some:
  "findIndex P xs = Some k \<Longrightarrow> k < length xs \<and> P (xs ! k) \<and> (\<forall>j < k. \<not> P (xs ! j))"
proof (induction xs arbitrary: k)
  case Nil
  then show ?case by simp
next
  case (Cons x xs)
  show ?case
  proof (cases "P x")
    case True
    with Cons.prems show ?thesis by simp
  next
    case False
    with Cons.prems obtain k' where k': "findIndex P xs = Some k'" "k = Suc k'"
      by auto
    from Cons.IH[OF k'(1)] False k'(2) show ?thesis
      by (auto simp: less_Suc_eq_0_disj)
  qed
qed

lemma findIndex_None: "findIndex P xs = None \<longleftrightarrow> (\<forall>x \<in> set xs. \<not> P x)"
  by (induction xs) auto

lemma itemToAdd_fields:
  "item_id (itemToAdd p) = item_id p \<and> item_name (itemToAdd p) = item_name p
   \<and> quantity (itemToAdd p) = quantity p \<and> availableSuppliers (itemToAdd p) = availableSuppliers p"
  by (simp add: itemToAdd_def split: option.splits list.splits)


section \<open>Adding to the cart: merge or append\<close>



lemma cheaper_same: "cheaper s s = s"
  by (simp add: cheaper_def)

lemma firstMinimum_snoc_less:
  assumes "firstMinimum ys k" and "price x < price (ys ! k)"
  shows "firstMinimum (ys @ [x]) (length ys)"
proof -
  from assms(1) have kmin: "\<forall>j < length ys. price (ys ! k) \<le> price (ys ! j)"
    by (simp add: firstMinimum_def)
  with assms(2) have "\<forall>j < length ys. price x < price (ys ! j)"
    by fastforce
  then show ?thesis
    by (auto simp: firstMinimum_def nth_append less_Suc_eq)
qed

lemma firstMinimum_snoc_keep:
  assumes "firstMinimum ys k" and "\<not> price x < price (ys ! k)"
  shows "firstMinimum (ys @ [x]) k"
  using assms by (auto simp: firstMinimum_def nth_append less_Suc_eq)

lemma firstMinimum_foldl:
  "\<exists>k. firstMinimum (s0 # rest) k \<and> foldl cheaper s0 rest = (s0 # rest) ! k"
proof (induction rest rule: rev_induct)
  case Nil
  have "firstMinimum [s0] 0" by (simp add: firstMinimum_def)
  then show ?case by auto
next
  case (snoc x xs)
  define ys where "ys = s0 # xs"
  from snoc obtain k where fm: "firstMinimum ys k" and eq: "foldl cheaper s0 xs = ys ! k"
    unfolding ys_def by blast
  from fm have klt: "k < length ys" by (simp add: firstMinimum_def)
  have app: "s0 # (xs @ [x]) = ys @ [x]" by (simp add: ys_def)
  show ?case
  proof (cases "price x < price (ys ! k)")
    case True
    have "foldl cheaper s0 (xs @ [x]) = (ys @ [x]) ! length ys"
      using True eq by (simp add: cheaper_def)
    with firstMinimum_snoc_less[OF fm True] show ?thesis unfolding app by blast
  next
    case False
    have "foldl cheaper s0 (xs @ [x]) = (ys @ [x]) ! k"
      using False eq klt by (simp add: cheaper_def nth_append)
    with firstMinimum_snoc_keep[OF fm False] show ?thesis unfolding app by blast
  qed
qed

lemma cheapestSupplier_firstMinimum:
  "\<exists>k. firstMinimum (s0 # rest) k \<and> cheapestSupplier s0 (s0 # rest) = (s0 # rest) ! k"
  using firstMinimum_foldl[of s0 rest] by (simp add: cheapestSupplier_def cheaper_same)

lemma firstMinimum_unique: "firstMinimum offers k \<Longrightarrow> firstMinimum offers j \<Longrightarrow> j = k"
  unfolding firstMinimum_def by (metis leD linorder_neqE_nat)









section \<open>Storing and reloading\<close>




lemma loadItem_selected:
  assumes "availableSuppliers item = Some (s0 # rest)"
  shows "selectedSupplierName (loadItem item) = Some (sup_name (cheapestSupplier s0 (s0 # rest)))"
  using assms by (simp add: loadItem_def Let_def)

lemma loadItem_offers: "availableSuppliers (loadItem item) = availableSuppliers item"
  by (simp add: loadItem_def Let_def split: option.splits list.splits)

lemma initialItems_loaded:
  assumes "initialItems st = Some loaded"
  shows "\<exists>raw. loaded = map loadItem raw"
  using assms by (auto simp: initialItems_def split: option.splits json.splits)

section \<open>The cheapest supplier is selected\<close>

text \<open>
  The two paths that select the cheapest offer. After the store is initialised from
  storage, every cart item with a non-empty offer list has the name of its minimum-price
  offer selected, the first one in the list among offers of equal price. A product with a
  non-empty offer list and no selected supplier that \<^verbatim>\<open>addToCart\<close> appends, which it does
  when no entry of the cart has the product's id and selected-supplier value, is appended
  with the name of that offer selected.
\<close>

lemma cheapest_selected_on_load_and_append:
  "(\<forall>loaded item offers.
       initialItems st = Some loaded \<and> item \<in> set loaded
       \<and> availableSuppliers item = Some offers \<and> offers \<noteq> [] \<longrightarrow>
       (\<exists>k. firstMinimum offers k
            \<and> selectedSupplierName item = Some (sup_name (offers ! k))))
   \<and> (\<forall>offers.
       \<not> truthy (selectedSupplierName product)
       \<and> availableSuppliers product = Some offers \<and> offers \<noteq> []
       \<and> (\<forall>item \<in> set prevItems. \<not> sameEntry product item) \<longrightarrow>
       (\<exists>k. firstMinimum offers k
            \<and> addToCart_items ar product prevItems
                = prevItems @ [product\<lparr>selectedSupplierName := Some (sup_name (offers ! k))\<rparr>]))"
proof (intro conjI allI impI)
  fix loaded item offers
  assume a: "initialItems st = Some loaded \<and> item \<in> set loaded
       \<and> availableSuppliers item = Some offers \<and> offers \<noteq> []"
  then obtain raw where "loaded = map loadItem raw"
    using initialItems_loaded by blast
  with a obtain r where r: "item = loadItem r" by auto
  from a obtain s0 rest where offers: "offers = s0 # rest" by (cases offers) auto
  from a r offers have "availableSuppliers r = Some (s0 # rest)"
    by (simp add: loadItem_offers)
  from loadItem_selected[OF this] r
  have "selectedSupplierName item = Some (sup_name (cheapestSupplier s0 (s0 # rest)))" by simp
  with cheapestSupplier_firstMinimum[of s0 rest] offers
  show "\<exists>k. firstMinimum offers k \<and> selectedSupplierName item = Some (sup_name (offers ! k))"
    by auto
next
  fix offers
  assume a: "\<not> truthy (selectedSupplierName product)
       \<and> availableSuppliers product = Some offers \<and> offers \<noteq> []
       \<and> (\<forall>item \<in> set prevItems. \<not> sameEntry product item)"
  then obtain s0 rest where offers: "offers = s0 # rest" by (cases offers) auto
  from a have "findIndex (sameEntry product) prevItems = None"
    by (simp add: findIndex_None)
  then have "addToCart_items ar product prevItems = prevItems @ [itemToAdd product]"
    by (simp add: addToCart_items_def)
  moreover from a offers
  have "itemToAdd product
          = product\<lparr>selectedSupplierName := Some (sup_name (cheapestSupplier s0 (s0 # rest)))\<rparr>"
    by (simp add: itemToAdd_def)
  ultimately show "\<exists>k. firstMinimum offers k
            \<and> addToCart_items ar product prevItems
                = prevItems @ [product\<lparr>selectedSupplierName := Some (sup_name (offers ! k))\<rparr>]"
    using cheapestSupplier_firstMinimum[of s0 rest] offers by auto
qed

text \<open>
  Claim C4 asks that an item with offers that is added with no supplier selected have its
  minimum-price offer selected. The paths above do that, and the comment on the search in
  \<^verbatim>\<open>addToCart\<close> says that a product with no selected supplier is added as an entry of its
  own even when its id is in the cart. The search compares the two selections with
  \<^verbatim>\<open>===\<close>, and two undefined selections are equal: the widget is added with no selection (B
  is selected for it), its selection is cleared by \<^verbatim>\<open>selectSupplierForItem\<close> with no name,
  and the widget is added again with no selection. The second addition finds the entry
  and only adds the quantity, so the entry has offers, B the cheapest, and no selected
  supplier.
\<close>

theorem addToCart_merge_keeps_no_selection:
  "items (addToCart exactArith unselectedWidget
            (selectSupplierForItem 1 None (addToCart exactArith unselectedWidget emptyStore)))
     = [unselectedWidget\<lparr>quantity := 4\<rparr>]
   \<and> availableSuppliers (unselectedWidget\<lparr>quantity := 4\<rparr>) = Some [offerA, offerB]
   \<and> cheapestSupplier offerA [offerA, offerB] = offerB
   \<and> selectedSupplierName (unselectedWidget\<lparr>quantity := 4\<rparr>) = None"
  by (simp add: addToCart_def addToCart_items_def selectSupplierForItem_def emptyStore_def
      unselectedWidget_def widget_def itemToAdd_def sameEntry_def truthy_def
      cheapestSupplier_def cheaper_def offerA_def offerB_def fadd_exactArith)

lemma allPositive_iff: "allPositive xs \<longleftrightarrow> (\<forall>item \<in> set xs. 0 < quantity item)"
  by (simp add: allPositive_def list_all_iff)

lemma allPositive_updateQuantity: "allPositive (updateQuantity_items pid q xs)"
  by (simp add: allPositive_iff updateQuantity_items_def)

lemma updateQuantity_remove:
  assumes "allPositive xs" and "q \<le> 0"
  shows "updateQuantity_items pid q xs = filter (\<lambda>item. item_id item \<noteq> pid) xs"
  using assms unfolding allPositive_iff updateQuantity_items_def
  by (induction xs) auto

lemma updateQuantity_items_same_id:
  "filter (\<lambda>item. item_id item = pid) (updateQuantity_items pid q prevItems)
     = (if 0 < q
        then map (\<lambda>item. item\<lparr>quantity := q\<rparr>) (filter (\<lambda>item. item_id item = pid) prevItems)
        else [])"
  unfolding updateQuantity_items_def by (induction prevItems) auto

lemma updateQuantity_items_other_id:
  "filter (\<lambda>item. item_id item \<noteq> pid) (updateQuantity_items pid q prevItems)
     = filter (\<lambda>item. item_id item \<noteq> pid \<and> 0 < quantity item) prevItems"
  unfolding updateQuantity_items_def by (induction prevItems) auto

lemma updateQuantity_items_removed:
  assumes "q \<le> 0"
  shows "\<forall>item \<in> set (updateQuantity_items pid q xs). item_id item \<noteq> pid"
proof -
  from assms have "filter (\<lambda>item. item_id item = pid) (updateQuantity_items pid q xs) = []"
    by (simp add: updateQuantity_items_same_id)
  then show ?thesis by (simp add: filter_empty_conv)
qed

lemma allPositive_addToCart:
  assumes "allPositive xs" and "0 < quantity product"
  shows "allPositive (addToCart_items ar product xs)"
proof (cases "findIndex (sameEntry product) xs")
  case None
  with assms show ?thesis
    by (simp add: addToCart_items_def allPositive_iff itemToAdd_fields)
next
  case (Some k)
  from findIndex_Some[OF Some] have k: "k < length xs" by simp
  with assms(1) have "0 < quantity (xs ! k)" by (simp add: allPositive_iff)
  then have "0 < fadd ar (quantity (xs ! k)) (quantity product)"
    using assms(2) by (rule fadd_positive)
  then have "0 < quantity
      ((xs ! k)\<lparr>quantity := fadd ar (quantity (xs ! k)) (quantity product)\<rparr>)"
    by simp
  with assms(1) have "\<forall>item \<in> set (xs[k := (xs ! k)
      \<lparr>quantity := fadd ar (quantity (xs ! k)) (quantity product)\<rparr>]). 0 < quantity item"
    unfolding allPositive_iff using set_update_subset_insert by fastforce
  then show ?thesis by (simp add: addToCart_items_def Some allPositive_iff)
qed

lemma allPositive_placeOrder:
  assumes "allPositive (items s)"
  shows "allPositive (items (placeOrder ar env s))"
proof (cases "items s \<noteq> [] \<and> allSelected (items s) \<and> (\<exists>item \<in> set (items s). resolves item)")
  case True
  then have "items s \<noteq> []" "allSelected (items s)" "\<exists>item \<in> set (items s). resolves item"
    by blast+
  from placeOrder_succeeds[OF this, of ar env] show ?thesis by (simp add: allPositive_def)
next
  case False
  then have "items s = [] \<or> \<not> allSelected (items s)
             \<or> (\<forall>item \<in> set (items s). \<not> resolves item)" by blast
  from placeOrder_aborts[OF this, of ar env] obtain a where
    "placeOrder ar env s = s\<lparr>alerts := alerts s @ [a]\<rparr>" ..
  with assms show ?thesis by simp
qed

section \<open>Quantities stay above zero\<close>

text \<open>
  Claim C5, as the code has it. \<^verbatim>\<open>updateQuantity\<close> with a quantity of zero or less leaves
  no entry of that product id in the cart. On a cart whose entries all have a quantity
  above zero it removes these entries and leaves the others; and every store operation
  on such a cart leaves a cart whose entries all have a quantity above zero, \<^verbatim>\<open>addToCart\<close>
  provided that the incoming product's quantity is above zero.
\<close>

theorem quantities_stay_positive:
  "(q \<le> 0 \<longrightarrow> (\<forall>item \<in> set (items (updateQuantity pid q s)). item_id item \<noteq> pid))
   \<and> (allPositive (items s) \<longrightarrow>
        (q \<le> 0 \<longrightarrow>
           items (updateQuantity pid q s) = filter (\<lambda>item. item_id item \<noteq> pid) (items s))
        \<and> (0 < quantity product \<longrightarrow> allPositive (items (addToCart ar product s)))
        \<and> allPositive (items (removeFromCart pid s))
        \<and> allPositive (items (updateQuantity pid q s))
        \<and> allPositive (items (clearCart s))
        \<and> allPositive (items (selectSupplierForItem itemId supplier s))
        \<and> allPositive (items (placeOrder ar env s)))"
proof (intro conjI impI)
  assume "q \<le> 0"
  then show "\<forall>item \<in> set (items (updateQuantity pid q s)). item_id item \<noteq> pid"
    by (simp add: updateQuantity_def updateQuantity_items_removed)
next
  assume "allPositive (items s)" and "q \<le> 0"
  then show "items (updateQuantity pid q s) = filter (\<lambda>item. item_id item \<noteq> pid) (items s)"
    by (simp add: updateQuantity_def updateQuantity_remove)
next
  assume "allPositive (items s)" and "0 < quantity product"
  then show "allPositive (items (addToCart ar product s))"
    by (simp add: addToCart_def allPositive_addToCart)
next
  assume "allPositive (items s)"
  then show "allPositive (items (removeFromCart pid s))"
    by (simp add: removeFromCart_def allPositive_iff)
next
  show "allPositive (items (updateQuantity pid q s))"
    by (simp add: updateQuantity_def allPositive_updateQuantity)
next
  show "allPositive (items (clearCart s))"
    by (simp add: clearCart_def allPositive_def)
next
  assume "allPositive (items s)"
  then show "allPositive (items (selectSupplierForItem itemId supplier s))"
    by (auto simp: selectSupplierForItem_def allPositive_iff)
next
  assume "allPositive (items s)"
  then show "allPositive (items (placeOrder ar env s))"
    by (rule allPositive_placeOrder)
qed

text \<open>
  The cart of a gadget and a widget: setting the widget's quantity to zero leaves the
  gadget alone, and adding two more widgets keeps every quantity above zero.
\<close>

theorem quantities_stay_positive_witness:
  "allPositive (items mixedStore)
   \<and> items (updateQuantity 1 0 mixedStore) = [gadget]
   \<and> 0 < quantity widget
   \<and> allPositive (items (addToCart exactArith widget mixedStore))
   \<and> allPositive (items (placeOrder exactArith env0 mixedStore))"
proof -
  have its: "items mixedStore = [gadget, widget]"
    by (simp add: mixedStore_def emptyStore_def)
  have pos: "allPositive (items mixedStore)"
    by (simp add: its allPositive_def gadget_def widget_def)
  have qw: "0 < quantity widget" by (simp add: widget_def)
  have flt: "filter (\<lambda>item. item_id item \<noteq> 1) (items mixedStore) = [gadget]"
    by (simp add: its gadget_def widget_def)
  note inst = quantities_stay_positive[of 0 1 mixedStore widget exactArith _ _ env0, unfolded flt]
  from inst pos qw show ?thesis by simp
qed

text \<open>
  The claim as it is worded has no condition on the product: \<^verbatim>\<open>addToCart\<close> with a product
  of quantity zero, on the empty cart, leaves an entry of quantity zero.
\<close>

theorem quantities_stay_positive_counterexample:
  "allPositive (items emptyStore)
   \<and> items (addToCart exactArith zeroGadget emptyStore) = [zeroGadget]
   \<and> quantity zeroGadget = 0
   \<and> \<not> allPositive (items (addToCart exactArith zeroGadget emptyStore))"
  by (simp add: allPositive_def emptyStore_def addToCart_def addToCart_items_def itemToAdd_def
      zeroGadget_def gadget_def truthy_def)

section \<open>What updateQuantity removes and what it keeps\<close>

text \<open>
  Claim C9. After \<^verbatim>\<open>updateQuantity\<close> every entry left has a quantity above zero. The
  entries of another product id are exactly those of the cart before whose quantity was
  above zero, unchanged and in the same order: one whose quantity was zero or less
  already is removed too. The entries of the product id are those of the cart before
  with the new quantity, or none when the new quantity is zero or less.
\<close>

theorem updateQuantity_frame:
  "allPositive (updateQuantity_items pid q prevItems)
   \<and> filter (\<lambda>item. item_id item \<noteq> pid) (updateQuantity_items pid q prevItems)
       = filter (\<lambda>item. item_id item \<noteq> pid \<and> 0 < quantity item) prevItems
   \<and> filter (\<lambda>item. item_id item = pid) (updateQuantity_items pid q prevItems)
       = (if 0 < q
          then map (\<lambda>item. item\<lparr>quantity := q\<rparr>) (filter (\<lambda>item. item_id item = pid) prevItems)
          else [])"
proof (intro conjI)
  show "allPositive (updateQuantity_items pid q prevItems)"
    by (rule allPositive_updateQuantity)
next
  show "filter (\<lambda>item. item_id item \<noteq> pid) (updateQuantity_items pid q prevItems)
       = filter (\<lambda>item. item_id item \<noteq> pid \<and> 0 < quantity item) prevItems"
    by (rule updateQuantity_items_other_id)
next
  show "filter (\<lambda>item. item_id item = pid) (updateQuantity_items pid q prevItems)
       = (if 0 < q
          then map (\<lambda>item. item\<lparr>quantity := q\<rparr>) (filter (\<lambda>item. item_id item = pid) prevItems)
          else [])"
    by (rule updateQuantity_items_same_id)
qed

text \<open>
  A cart holding a gadget of quantity zero and a widget: setting the widget's quantity
  to 5 removes the gadget.
\<close>

theorem updateQuantity_frame_witness:
  "updateQuantity_items 1 5 [zeroGadget, widget] = [widget\<lparr>quantity := 5\<rparr>]
   \<and> filter (\<lambda>item. item_id item \<noteq> 1) (updateQuantity_items 1 5 [zeroGadget, widget]) = []"
proof -
  have "filter (\<lambda>item. item_id item \<noteq> 1 \<and> 0 < quantity item) [zeroGadget, widget] = []"
    by (simp add: zeroGadget_def gadget_def widget_def)
  with updateQuantity_frame[of 1 5 "[zeroGadget, widget]"]
  have "filter (\<lambda>item. item_id item \<noteq> 1) (updateQuantity_items 1 5 [zeroGadget, widget]) = []"
    by simp
  moreover have "updateQuantity_items 1 5 [zeroGadget, widget] = [widget\<lparr>quantity := 5\<rparr>]"
    by (simp add: updateQuantity_items_def zeroGadget_def gadget_def widget_def)
  ultimately show ?thesis by simp
qed

section \<open>Order identifiers\<close>

text \<open>
  Claim C6 asks that the identifiers of the orders in the history be pairwise distinct.
  The identifier is made of the clock's millisecond and a random integer below 1000, so
  two checkouts that read the same millisecond and draw the same integer give the same
  identifier: here the widget is ordered, added again and ordered again.
\<close>

theorem order_id_repeats:
  "map order_id (orders widgetOrderedTwice)
     = [''ORDER-1700000000000-42'', ''ORDER-1700000000000-42'']
   \<and> \<not> distinct (map order_id (orders widgetOrderedTwice))"
proof -
  have ne: "items widgetStore \<noteq> []" and sel: "allSelected (items widgetStore)"
    and res: "\<exists>item \<in> set (items widgetStore). resolves item"
    by (simp_all add: widgetStore_def emptyStore_def allSelected_def widget_def truthy_def
        resolves_def selectedSupplier_def offerA_def offerB_def)
  note first = placeOrder_succeeds[OF ne sel res, of exactArith env0]
  define s1 where "s1 = addToCart exactArith widget (placeOrder exactArith env0 widgetStore)"
  have again: "items s1 = items widgetStore"
    unfolding s1_def
    unfolding first by (simp add: addToCart_def addToCart_items_def itemToAdd_def
        widget_def truthy_def widgetStore_def emptyStore_def)
  have ne': "items s1 \<noteq> []" and sel': "allSelected (items s1)"
    and res': "\<exists>item \<in> set (items s1). resolves item"
    unfolding again using ne sel res by blast+
  note second = placeOrder_succeeds[OF ne' sel' res', of exactArith env0]
  have ident: "newOrderId exactArith env0 = ''ORDER-1700000000000-42''"
    by (simp add: newOrderId_def env0_def string_of_int_def string_of_nat.simps digit_char_def
        fmul_exactArith)
  have "orders s1 = orders (placeOrder exactArith env0 widgetStore)"
    by (simp add: s1_def addToCart_def)
  then have "map order_id (orders (placeOrder exactArith env0 s1))
          = [newOrderId exactArith env0, newOrderId exactArith env0]"
    unfolding second unfolding first
    by (simp add: widgetStore_def emptyStore_def)
  then show ?thesis by (simp add: ident widgetOrderedTwice_def s1_def)
qed

end
